theory Spec2Isabelle
  imports Main
begin

section \<open>Errors\<close>

text \<open>
  Every exception the modelled code can raise is a value of this type; a fallible function
  returns \<open>error + 'a\<close>, with \<open>Inl\<close> for the exception.
\<close>

datatype error =
    ValueError
  | KeyError
  | AttributeError
  | RelatedObjectDoesNotExist
  | IntegrityError
  | ObjectNotPersisted
  | ImageError
  | RequestError
  | RegexError
  | UnboundLocalError
  | CannotDetermineProject
  | RecursionError

section \<open>Python string primitives\<close>

text \<open>
  A text is a \<open>string\<close>, one \<open>char\<close> per character. The functions below are the
  library methods \<^verbatim>\<open>str.split\<close>, \<^verbatim>\<open>str.join\<close>, \<^verbatim>\<open>str.zfill\<close>, \<^verbatim>\<open>str.ljust\<close>
  as Python defines them.
\<close>

text \<open>\<^verbatim>\<open>s.split(sep)\<close> for a one-character separator: never an empty list.\<close>

fun split_sep :: "char \<Rightarrow> string \<Rightarrow> string list" where
  "split_sep sep [] = [[]]"
| "split_sep sep (c # cs) =
     (if c = sep then [] # split_sep sep cs
      else (case split_sep sep cs of
              [] \<Rightarrow> [[c]]
            | w # ws \<Rightarrow> (c # w) # ws))"

text \<open>\<^verbatim>\<open>sep.join(xs)\<close>.\<close>

fun join :: "string \<Rightarrow> string list \<Rightarrow> string" where
  "join sep [] = []"
| "join sep [x] = x"
| "join sep (x # y # ys) = x @ sep @ join sep (y # ys)"

text \<open>
  \<^verbatim>\<open>s.zfill(width)\<close>: a text at least \<open>width\<close> long is returned as it is; otherwise zeros
  are inserted, after the sign when the text starts with \<open>+\<close> or \<open>-\<close>, in front otherwise.
\<close>

definition zfill :: "nat \<Rightarrow> string \<Rightarrow> string" where
  "zfill width s =
     (if width \<le> length s then s
      else (case s of
              [] \<Rightarrow> replicate width CHR ''0''
            | c # cs \<Rightarrow>
                if c = CHR ''+'' \<or> c = CHR ''-''
                then c # replicate (width - length s) CHR ''0'' @ cs
                else replicate (width - length s) CHR ''0'' @ s))"

text \<open>\<^verbatim>\<open>s.ljust(width, fillchar)\<close>.\<close>

definition ljust :: "nat \<Rightarrow> char \<Rightarrow> string \<Rightarrow> string" where
  "ljust width fillchar s = s @ replicate (width - length s) fillchar"

text \<open>Truth value of an integer primary key (\<^verbatim>\<open>if self.id:\<close>): set and not zero.\<close>

definition truthy :: "nat option \<Rightarrow> bool" where
  "truthy x = (case x of None \<Rightarrow> False | Some n \<Rightarrow> n \<noteq> 0)"

section \<open>The data model\<close>

text \<open>
  Projects, phases, workflows, sign templates and permission groups are rows of other
  applications; the code of \<^verbatim>\<open>sign.py\<close> uses them through their primary keys and through
  methods whose results are parameters of the model (record \<open>Env\<close> below).
\<close>

type_synonym project_id = nat
type_synonym phase_id = nat
type_synonym workflow_id = nat
type_synonym sign_template_id = nat
type_synonym group = nat
type_synonym pdf = string
type_synonym png = string

record Zone =
  zone_id :: nat
  zone_project :: project_id

record Position =
  position_id :: "nat option"
  position_zone :: "Zone option"
  position_project :: project_id

record State =
  state_id :: nat
  state_phase :: phase_id
  state_workflow :: workflow_id

text \<open>
  A \<open>Sign\<close> instance: the columns of the table that \<^verbatim>\<open>save\<close> reads or writes, and the
  private attributes \<^verbatim>\<open>__original_*\<close> and \<^verbatim>\<open>__is_new\<close> that \<^verbatim>\<open>__init__\<close> records.
  A foreign key that is null, or not set yet, is \<open>None\<close>.
\<close>

record Sign =
  id' :: "nat option"
  position :: Position
  sign_template :: "sign_template_id option"
  state :: "State option"
  number :: string
  zone :: "Zone option"
  project :: "project_id option"
  phase :: "phase_id option"
  workflow :: "workflow_id option"
  phase_sort :: string
  state_sort :: string
  zone_sort :: string
  sign_template_sort :: string
  number_sort :: string
  has_conflict_type_location_number :: bool
  has_conflict_location_number :: bool
  has_conflict_type_number :: bool
  override_pdf :: "pdf option"
  override_pdf_as_png :: "png option"
  override_artwork_up_to_date :: bool
  review_state :: char
  original_phase_id :: "phase_id option"
  original_state_id :: "nat option"
  original_zone_id :: "nat option"
  original_sign_template_id :: "sign_template_id option"
  original_number :: string
  original_override_pdf :: "pdf option"
  is_new :: bool

definition state_id_of :: "Sign \<Rightarrow> nat option" where
  "state_id_of s = map_option state_id (state s)"

definition zone_id_of :: "Sign \<Rightarrow> nat option" where
  "zone_id_of s = map_option zone_id (zone s)"

text \<open>\<^verbatim>\<open>Sign.__init__\<close>: what the instance remembers of its fields as they were loaded.\<close>

definition init :: "Sign \<Rightarrow> Sign" where
  "init s = s\<lparr>original_phase_id := phase s,
              original_state_id := state_id_of s,
              original_zone_id := zone_id_of s,
              original_sign_template_id := sign_template s,
              original_number := number s,
              original_override_pdf := override_pdf s,
              is_new := (\<not> truthy (id' s))\<rparr>"

section \<open>The sort key of a number\<close>

text \<open>
  The expression both branches of \<^verbatim>\<open>Sign.save\<close> compute for a non-empty number
  (lines 243-252 and 284-293).
\<close>

definition number_sort_key :: "string \<Rightarrow> string" where
  "number_sort_key n =
     (let num_split = split_sep CHR ''.'' n;
          left = hd num_split;
          right = (if length num_split = 1 then [] else join ''.'' (tl num_split))
      in zfill 15 left @ ''.'' @ ljust 15 CHR ''0'' right)"

text \<open>
  The encoding as the specification words it: the left segment zero-padded on the left, every
  further segment zero-padded on the right on its own, all joined by dots; a single segment
  is followed by a dot and fifteen zeros; the empty number has the empty key.
\<close>

definition spec_number_sort :: "string \<Rightarrow> string" where
  "spec_number_sort n =
     (if n = [] then []
      else (case split_sep CHR ''.'' n of
              [] \<Rightarrow> []
            | [l] \<Rightarrow> replicate (15 - length l) CHR ''0'' @ l @ ''.'' @ replicate 15 CHR ''0''
            | l # rest \<Rightarrow>
                replicate (15 - length l) CHR ''0'' @ l @ ''.'' @
                join ''.'' (map (ljust 15 CHR ''0'') rest)))"

text \<open>Whether a text starts with a sign, which \<^verbatim>\<open>zfill\<close> keeps in front of the zeros.\<close>

definition signed :: "string \<Rightarrow> bool" where
  "signed l = (case l of [] \<Rightarrow> False | c # _ \<Rightarrow> c = CHR ''+'' \<or> c = CHR ''-'')"

section \<open>The environment of a save\<close>

text \<open>
  Methods of other applications and of libraries that \<^verbatim>\<open>Sign.save\<close> calls:
  \<^verbatim>\<open>global_order_id()\<close> of a phase, state, zone and sign template; the conversion of an
  uploaded PDF to a PNG by the image library (it may raise); the \<^verbatim>\<open>State\<close> table; the
  permission groups of a phase and of a state; and the number of nested calls of
  \<^verbatim>\<open>Sign.save\<close> that the recursion limit of the interpreter allows.
\<close>

record Env =
  phase_global_order_id :: "phase_id \<Rightarrow> string"
  state_global_order_id :: "nat \<Rightarrow> string"
  zone_global_order_id :: "nat \<Rightarrow> string"
  sign_template_global_order_id :: "sign_template_id \<Rightarrow> string"
  convert_pdf :: "nat option \<Rightarrow> pdf \<Rightarrow> error + png"
  state_objects :: "nat \<Rightarrow> State option"
  phase_member_group :: "phase_id \<Rightarrow> group"
  phase_viewer_group :: "phase_id \<Rightarrow> group"
  state_viewer_group :: "nat \<Rightarrow> group"
  recursion_limit :: nat

text \<open>
  Object permissions of the permission library: a grant is a triple of a permission, a group
  and an object. \<open>World\<close> is what a save can change outside the instance: the \<^verbatim>\<open>Sign\<close>
  table, the \<^verbatim>\<open>Position\<close> table, the grants, and the calls made to the permission library.
\<close>

datatype perm = change_sign | view_sign | review_sign | change_position | view_position

datatype obj = SignObj nat | PositionObj nat

datatype perm_call = Remove perm group obj | Assign perm group obj

record World =
  signs :: "Sign list"
  positions :: "Position list"
  perms :: "(perm \<times> group \<times> obj) set"
  perm_calls :: "perm_call list"

definition remove_perm :: "perm \<Rightarrow> group \<Rightarrow> obj \<Rightarrow> World \<Rightarrow> World" where
  "remove_perm p g ob w =
     w\<lparr>perms := perms w - {(p, g, ob)}, perm_calls := perm_calls w @ [Remove p g ob]\<rparr>"

definition assign_perm :: "perm \<Rightarrow> group \<Rightarrow> obj \<Rightarrow> World \<Rightarrow> World" where
  "assign_perm p g ob w =
     w\<lparr>perms := insert (p, g, ob) (perms w), perm_calls := perm_calls w @ [Assign p g ob]\<rparr>"

text \<open>\<^verbatim>\<open>perm in get_perms(group, obj)\<close>.\<close>

definition has_perm :: "perm \<Rightarrow> group \<Rightarrow> obj \<Rightarrow> World \<Rightarrow> bool" where
  "has_perm p g ob w = ((p, g, ob) \<in> perms w)"

section \<open>Sign.save\<close>

text \<open>Lines 170-175: the shortcut foreign keys follow the position and the state.\<close>

definition sync_shortcuts :: "Sign \<Rightarrow> Sign" where
  "sync_shortcuts s =
     (let s1 = s\<lparr>zone := position_zone (position s),
                 project := Some (position_project (position s))\<rparr>
      in (case state s1 of
            Some st \<Rightarrow> s1\<lparr>phase := Some (state_phase st), workflow := Some (state_workflow st)\<rparr>
          | None \<Rightarrow> s1))"

text \<open>Lines 179-204: a new custom PDF is converted before anything is written.\<close>

definition prepare_override_pdf :: "Env \<Rightarrow> Sign \<Rightarrow> error + Sign" where
  "prepare_override_pdf e s =
     (case override_pdf s of
        None \<Rightarrow> Inr s
      | Some f \<Rightarrow>
          if original_override_pdf s \<noteq> Some f
          then (case convert_pdf e (id' s) f of
                  Inl err \<Rightarrow> Inl err
                | Inr img \<Rightarrow>
                    Inr (s\<lparr>override_pdf_as_png := Some img, override_artwork_up_to_date := True\<rparr>))
          else Inr s)"

text \<open>Lines 207-208.\<close>

definition reset_review_state :: "Sign \<Rightarrow> Sign" where
  "reset_review_state s =
     (if truthy (state_id_of s) \<and> original_state_id s \<noteq> state_id_of s
      then s\<lparr>review_state := CHR ''N''\<rparr> else s)"

text \<open>
  Lines 211-295: the sort keys, one definition for each \<^verbatim>\<open>if\<close> statement. A sign with a
  primary key refreshes a key when its source changed since load; a sign without one computes
  them all. Reading \<^verbatim>\<open>self.phase\<close> of a sign whose phase was never set raises.
\<close>

definition phase_sort_existing :: "Env \<Rightarrow> Sign \<Rightarrow> Sign" where
  "phase_sort_existing e s =
     (case phase s of
        Some p \<Rightarrow> if p \<noteq> 0
                  then (if original_phase_id s \<noteq> phase s
                        then s\<lparr>phase_sort := phase_global_order_id e p\<rparr> else s)
                  else s\<lparr>phase_sort := []\<rparr>
      | None \<Rightarrow> s\<lparr>phase_sort := []\<rparr>)"

definition state_sort_existing :: "Env \<Rightarrow> Sign \<Rightarrow> Sign" where
  "state_sort_existing e s =
     (case state s of
        Some st \<Rightarrow> if state_id st \<noteq> 0
                   then (if original_state_id s \<noteq> state_id_of s
                         then s\<lparr>state_sort := state_global_order_id e (state_id st)\<rparr> else s)
                   else s\<lparr>state_sort := []\<rparr>
      | None \<Rightarrow> s\<lparr>state_sort := []\<rparr>)"

definition zone_sort_existing :: "Env \<Rightarrow> Sign \<Rightarrow> Sign" where
  "zone_sort_existing e s =
     (case zone s of
        Some z \<Rightarrow> if zone_id z \<noteq> 0
                  then (if original_zone_id s \<noteq> zone_id_of s
                        then s\<lparr>zone_sort := zone_global_order_id e (zone_id z)\<rparr> else s)
                  else s\<lparr>zone_sort := []\<rparr>
      | None \<Rightarrow> s\<lparr>zone_sort := []\<rparr>)"

definition sign_template_sort_existing :: "Env \<Rightarrow> Sign \<Rightarrow> Sign" where
  "sign_template_sort_existing e s =
     (case sign_template s of
        Some t \<Rightarrow> if t \<noteq> 0
                  then (if original_sign_template_id s \<noteq> sign_template s
                        then s\<lparr>sign_template_sort := sign_template_global_order_id e t\<rparr>
                        else s)
                  else s\<lparr>sign_template_sort := []\<rparr>
      | None \<Rightarrow> s\<lparr>sign_template_sort := []\<rparr>)"

definition number_sort_existing :: "Sign \<Rightarrow> Sign" where
  "number_sort_existing s =
     (if number s \<noteq> []
      then (if original_number s \<noteq> number s
            then s\<lparr>number_sort := number_sort_key (number s)\<rparr> else s)
      else s\<lparr>number_sort := []\<rparr>)"

definition update_sorts_existing :: "Env \<Rightarrow> Sign \<Rightarrow> Sign" where
  "update_sorts_existing e s =
     number_sort_existing
       (sign_template_sort_existing e
          (zone_sort_existing e (state_sort_existing e (phase_sort_existing e s))))"

definition state_sort_new :: "Env \<Rightarrow> Sign \<Rightarrow> Sign" where
  "state_sort_new e s =
     (case state s of
        Some st \<Rightarrow> s\<lparr>state_sort := state_global_order_id e (state_id st)\<rparr>
      | None \<Rightarrow> s\<lparr>state_sort := []\<rparr>)"

definition zone_sort_new :: "Env \<Rightarrow> Sign \<Rightarrow> Sign" where
  "zone_sort_new e s =
     (case zone s of
        Some z \<Rightarrow> s\<lparr>zone_sort := zone_global_order_id e (zone_id z)\<rparr>
      | None \<Rightarrow> s\<lparr>zone_sort := []\<rparr>)"

definition sign_template_sort_new :: "Env \<Rightarrow> Sign \<Rightarrow> Sign" where
  "sign_template_sort_new e s =
     (case sign_template s of
        Some t \<Rightarrow> s\<lparr>sign_template_sort := sign_template_global_order_id e t\<rparr>
      | None \<Rightarrow> s\<lparr>sign_template_sort := []\<rparr>)"

definition number_sort_new :: "Sign \<Rightarrow> Sign" where
  "number_sort_new s =
     (if number s \<noteq> [] then s\<lparr>number_sort := number_sort_key (number s)\<rparr>
      else s\<lparr>number_sort := []\<rparr>)"

definition update_sorts_new :: "Env \<Rightarrow> Sign \<Rightarrow> error + Sign" where
  "update_sorts_new e s =
     (case phase s of
        None \<Rightarrow> Inl RelatedObjectDoesNotExist
      | Some p \<Rightarrow>
          Inr (number_sort_new
                 (sign_template_sort_new e
                    (zone_sort_new e
                       (state_sort_new e (s\<lparr>phase_sort := phase_global_order_id e p\<rparr>))))))"

definition update_sorts :: "Env \<Rightarrow> Sign \<Rightarrow> error + Sign" where
  "update_sorts e s =
     (if truthy (id' s) then Inr (update_sorts_existing e s) else update_sorts_new e s)"

subsection \<open>The Sign table\<close>

text \<open>
  \<^verbatim>\<open>super().save()\<close>: a sign without a primary key is inserted under a fresh one; a sign with
  one replaces its row, or is inserted when the table has no such row.
\<close>

definition fresh_id :: "Sign list \<Rightarrow> nat" where
  "fresh_id db = Suc (fold max (List.map_filter id' db) 0)"

definition db_save :: "Sign \<Rightarrow> Sign list \<Rightarrow> Sign \<times> Sign list" where
  "db_save s db =
     (case id' s of
        None \<Rightarrow> (let s' = s\<lparr>id' := Some (fresh_id db)\<rparr> in (s', db @ [s']))
      | Some n \<Rightarrow>
          if Some n \<in> set (map id' db)
          then (s, map (\<lambda>r. if id' r = Some n then s else r) db)
          else (s, db @ [s]))"


subsection \<open>The conflict rescan (lines 297-363)\<close>

text \<open>
  \<^verbatim>\<open>sign.save()\<close> on a sibling inside the rescan (lines 309, 317, 331, 339, 353, 361) is
  \<^verbatim>\<open>Sign.save\<close> itself, called on the instance that the query has loaded. The rescan
  therefore takes the save of a sibling as its argument \<open>sibling_save\<close>, and \<open>save_all\<close> is
  the loop that saves the instances of a query result one after the other: each save starts
  from the world that the save before it left, and an exception ends the loop.
\<close>

fun save_all ::
  "(Sign \<Rightarrow> World \<Rightarrow> error + Sign \<times> World) \<Rightarrow> Sign list \<Rightarrow> World \<Rightarrow> error + World" where
  "save_all sibling_save [] w = Inr w"
| "save_all sibling_save (sign # rest) w =
     (case sibling_save sign w of
        Inl err \<Rightarrow> Inl err
      | Inr (_, w') \<Rightarrow> save_all sibling_save rest w')"

text \<open>
  The three blocks of the rescan are the same code over three flags and three pairs of
  queries. \<open>conflict_scope\<close> is one block: \<open>get_flag\<close> and \<open>set_flag\<close> read and write the
  flag of the block, \<open>previous\<close> and \<open>current\<close> are the filters of its two queries
  (\<^verbatim>\<open>.exclude(id=self.id)\<close> is added here). \<^verbatim>\<open>len(qs)\<close> evaluates a query once: the
  instances of the loop are the rows as they were then, built by \<^verbatim>\<open>__init__\<close>. The second
  query reads the table as the first loop left it.
\<close>

definition conflict_scope ::
  "(Sign \<Rightarrow> World \<Rightarrow> error + Sign \<times> World) \<Rightarrow>
   (Sign \<Rightarrow> bool) \<Rightarrow> (bool \<Rightarrow> Sign \<Rightarrow> Sign) \<Rightarrow> (Sign \<Rightarrow> bool) \<Rightarrow> (Sign \<Rightarrow> bool) \<Rightarrow>
   Sign \<Rightarrow> World \<Rightarrow> error + Sign \<times> World" where
  "conflict_scope sibling_save get_flag set_flag previous current s w =
     (let s1 = set_flag False s;
          qs = filter (\<lambda>r. previous r \<and> id' r \<noteq> id' s) (signs w)
      in (case (if length qs = 1
                then save_all sibling_save (map (\<lambda>sign. set_flag False (init sign)) qs) w
                else Inr w) of
            Inl err \<Rightarrow> Inl err
          | Inr w1 \<Rightarrow>
              (let qs2 = filter (\<lambda>r. current r \<and> id' r \<noteq> id' s) (signs w1)
               in if length qs2 > 0
                  then (case save_all sibling_save
                               (map (\<lambda>sign. set_flag True (init sign))
                                  (filter (\<lambda>sign. \<not> get_flag sign) qs2)) w1 of
                          Inl err \<Rightarrow> Inl err
                        | Inr w2 \<Rightarrow> Inr (set_flag True s1, w2))
                  else Inr (s1, w1))))"

definition rescan_type_location_number ::
  "(Sign \<Rightarrow> World \<Rightarrow> error + Sign \<times> World) \<Rightarrow> Sign \<Rightarrow> World \<Rightarrow> error + Sign \<times> World" where
  "rescan_type_location_number sibling_save s w =
     conflict_scope sibling_save has_conflict_type_location_number
       (\<lambda>b r. r\<lparr>has_conflict_type_location_number := b\<rparr>)
       (\<lambda>r. project r = project s \<and> sign_template r = original_sign_template_id s \<and>
            zone_id_of r = original_zone_id s \<and> number r = original_number s)
       (\<lambda>r. project r = project s \<and> sign_template r = sign_template s \<and>
            zone_id_of r = zone_id_of s \<and> number r = number s)
       s w"

definition rescan_location_number ::
  "(Sign \<Rightarrow> World \<Rightarrow> error + Sign \<times> World) \<Rightarrow> Sign \<Rightarrow> World \<Rightarrow> error + Sign \<times> World" where
  "rescan_location_number sibling_save s w =
     conflict_scope sibling_save has_conflict_location_number
       (\<lambda>b r. r\<lparr>has_conflict_location_number := b\<rparr>)
       (\<lambda>r. project r = project s \<and> zone_id_of r = original_zone_id s \<and>
            number r = original_number s)
       (\<lambda>r. project r = project s \<and> zone_id_of r = zone_id_of s \<and> number r = number s)
       s w"

definition rescan_type_number ::
  "(Sign \<Rightarrow> World \<Rightarrow> error + Sign \<times> World) \<Rightarrow> Sign \<Rightarrow> World \<Rightarrow> error + Sign \<times> World" where
  "rescan_type_number sibling_save s w =
     conflict_scope sibling_save has_conflict_type_number
       (\<lambda>b r. r\<lparr>has_conflict_type_number := b\<rparr>)
       (\<lambda>r. project r = project s \<and> sign_template r = original_sign_template_id s \<and>
            number r = original_number s)
       (\<lambda>r. project r = project s \<and> sign_template r = sign_template s \<and> number r = number s)
       s w"

text \<open>Line 297: the condition under which the rescan runs.\<close>

definition rescan_triggered :: "Sign \<Rightarrow> bool" where
  "rescan_triggered s =
     (is_new s \<or> original_number s \<noteq> number s \<or>
      original_sign_template_id s \<noteq> sign_template s \<or> original_zone_id s \<noteq> zone_id_of s)"

text \<open>Lines 297-363: the three blocks under their guards (lines 299, 321 and 343).\<close>

definition conflict_rescan ::
  "(Sign \<Rightarrow> World \<Rightarrow> error + Sign \<times> World) \<Rightarrow> Sign \<Rightarrow> World \<Rightarrow> error + Sign \<times> World" where
  "conflict_rescan sibling_save s w =
     (if rescan_triggered s
      then (case (if sign_template s \<noteq> None \<and> zone s \<noteq> None
                  then rescan_type_location_number sibling_save s w else Inr (s, w)) of
              Inl err \<Rightarrow> Inl err
            | Inr (s1, w1) \<Rightarrow>
                (case (if zone s1 \<noteq> None
                       then rescan_location_number sibling_save s1 w1 else Inr (s1, w1)) of
                   Inl err \<Rightarrow> Inl err
                 | Inr (s2, w2) \<Rightarrow>
                     if sign_template s2 \<noteq> None
                     then rescan_type_number sibling_save s2 w2 else Inr (s2, w2)))
      else Inr (s, w))"

subsection \<open>The rescan as the specification describes it\<close>

text \<open>
  One scope of the rescan in the words of the specification. Step 1 clears the flag of the
  sign being saved. Step 2 queries the other signs that match the previous tuple and, if
  there is exactly one, clears its flag. Step 3 queries the other signs that match the
  current tuple and, if there is any, sets the flag on every one of them and on the sign
  being saved.
\<close>

definition spec_rescan_scope ::
  "(bool \<Rightarrow> Sign \<Rightarrow> Sign) \<Rightarrow> (Sign \<Rightarrow> bool) \<Rightarrow> (Sign \<Rightarrow> bool) \<Rightarrow>
   Sign \<Rightarrow> Sign list \<Rightarrow> Sign \<times> Sign list" where
  "spec_rescan_scope set_flag previous current s db =
     (let cleared = set_flag False s;
          others_previous = filter (\<lambda>r. previous r \<and> id' r \<noteq> id' s) db;
          db1 = (if length others_previous = 1
                 then map (\<lambda>r. if previous r \<and> id' r \<noteq> id' s then set_flag False r else r) db
                 else db);
          others_current = filter (\<lambda>r. current r \<and> id' r \<noteq> id' s) db1
      in if others_current \<noteq> []
         then (set_flag True cleared,
               map (\<lambda>r. if current r \<and> id' r \<noteq> id' s then set_flag True r else r) db1)
         else (cleared, db1))"

text \<open>
  The three scopes: (project, template, zone, number), (project, zone, number) and
  (project, template, number). The previous tuple is made of the template, zone and number
  recorded at load; the current tuple of the fields at save time.
\<close>

definition spec_rescan_type_location_number :: "Sign \<Rightarrow> Sign list \<Rightarrow> Sign \<times> Sign list" where
  "spec_rescan_type_location_number s db =
     spec_rescan_scope (\<lambda>b r. r\<lparr>has_conflict_type_location_number := b\<rparr>)
       (\<lambda>r. (project r, sign_template r, zone_id_of r, number r) =
            (project s, original_sign_template_id s, original_zone_id s, original_number s))
       (\<lambda>r. (project r, sign_template r, zone_id_of r, number r) =
            (project s, sign_template s, zone_id_of s, number s))
       s db"

definition spec_rescan_location_number :: "Sign \<Rightarrow> Sign list \<Rightarrow> Sign \<times> Sign list" where
  "spec_rescan_location_number s db =
     spec_rescan_scope (\<lambda>b r. r\<lparr>has_conflict_location_number := b\<rparr>)
       (\<lambda>r. (project r, zone_id_of r, number r) =
            (project s, original_zone_id s, original_number s))
       (\<lambda>r. (project r, zone_id_of r, number r) = (project s, zone_id_of s, number s))
       s db"

definition spec_rescan_type_number :: "Sign \<Rightarrow> Sign list \<Rightarrow> Sign \<times> Sign list" where
  "spec_rescan_type_number s db =
     spec_rescan_scope (\<lambda>b r. r\<lparr>has_conflict_type_number := b\<rparr>)
       (\<lambda>r. (project r, sign_template r, number r) =
            (project s, original_sign_template_id s, original_number s))
       (\<lambda>r. (project r, sign_template r, number r) = (project s, sign_template s, number s))
       s db"

text \<open>The columns that the queries of the rescan read.\<close>

definition row_key ::
  "Sign \<Rightarrow> nat option \<times> project_id option \<times> sign_template_id option \<times> nat option \<times> string" where
  "row_key r = (id' r, project r, sign_template r, zone_id_of r, number r)"

subsection \<open>The permission resync (lines 558-613)\<close>

text \<open>\<^verbatim>\<open>position.signs.exclude(pk=self.id)\<close>.\<close>

definition other_signs :: "Sign \<Rightarrow> World \<Rightarrow> Sign list" where
  "other_signs s w =
     filter (\<lambda>r. position_id (position r) = position_id (position s) \<and> id' r \<noteq> id' s) (signs w)"

text \<open>
  Lines 573-589: the loop over the other signs of the position. The four flags are
  \<^verbatim>\<open>other_sign_phase_member_change\<close>, \<^verbatim>\<open>other_sign_phase_member_view\<close>,
  \<^verbatim>\<open>other_sign_phase_viewer\<close> and \<^verbatim>\<open>other_sign_state_viewer\<close>, in this order.
\<close>

fun other_sign_flags ::
  "group \<Rightarrow> group \<Rightarrow> group \<Rightarrow> World \<Rightarrow> Sign list \<Rightarrow> bool \<times> bool \<times> bool \<times> bool \<Rightarrow>
   bool \<times> bool \<times> bool \<times> bool" where
  "other_sign_flags pm pv sv w [] flags = flags"
| "other_sign_flags pm pv sv w (other_sign # rest) (mc, mv, v, sw) =
     (case id' other_sign of
        None \<Rightarrow> other_sign_flags pm pv sv w rest (mc, mv, v, sw)
      | Some k \<Rightarrow>
          other_sign_flags pm pv sv w rest
            (if has_perm change_sign pm (SignObj k) w then True else mc,
             if has_perm view_sign pm (SignObj k) w then True else mv,
             if has_perm view_sign pv (SignObj k) w then True else v,
             if has_perm view_sign sv (SignObj k) w then True else sw))"

text \<open>Lines 562-599: the block under \<^verbatim>\<open>if old_state:\<close>.\<close>

definition revoke_old_perms :: "Env \<Rightarrow> Sign \<Rightarrow> nat \<Rightarrow> nat \<Rightarrow> State \<Rightarrow> World \<Rightarrow> World" where
  "revoke_old_perms e s k pk old_state w =
     (let old_phase_member_group = phase_member_group e (state_phase old_state);
          old_phase_viewer_group = phase_viewer_group e (state_phase old_state);
          old_state_viewer_group = state_viewer_group e (state_id old_state);
          w1 = remove_perm change_sign old_phase_member_group (SignObj k) w;
          w2 = remove_perm view_sign old_phase_member_group (SignObj k) w1;
          w3 = remove_perm view_sign old_phase_viewer_group (SignObj k) w2;
          w4 = remove_perm view_sign old_state_viewer_group (SignObj k) w3;
          w5 = remove_perm review_sign old_state_viewer_group (SignObj k) w4;
          (other_sign_phase_member_change, other_sign_phase_member_view,
           other_sign_phase_viewer, other_sign_state_viewer) =
             other_sign_flags old_phase_member_group old_phase_viewer_group
               old_state_viewer_group w5 (other_signs s w5) (False, False, False, False);
          w6 = (if \<not> other_sign_phase_member_change
                then remove_perm change_position old_phase_member_group (PositionObj pk) w5
                else w5);
          w7 = (if \<not> other_sign_phase_member_view
                then remove_perm view_position old_phase_member_group (PositionObj pk) w6
                else w6);
          w8 = (if \<not> other_sign_phase_viewer
                then remove_perm view_position old_phase_viewer_group (PositionObj pk) w7
                else w7)
      in if \<not> other_sign_state_viewer
         then remove_perm view_position old_state_viewer_group (PositionObj pk) w8
         else w8)"

text \<open>Lines 601-613: the grants for the new state.\<close>

definition grant_new_perms :: "Env \<Rightarrow> nat \<Rightarrow> nat \<Rightarrow> State \<Rightarrow> World \<Rightarrow> World" where
  "grant_new_perms e k pk new_state w =
     (let new_phase_member_group = phase_member_group e (state_phase new_state);
          new_phase_viewer_group = phase_viewer_group e (state_phase new_state);
          new_state_viewer_group = state_viewer_group e (state_id new_state);
          w1 = assign_perm change_sign new_phase_member_group (SignObj k) w;
          w2 = assign_perm view_sign new_phase_member_group (SignObj k) w1;
          w3 = assign_perm view_sign new_phase_viewer_group (SignObj k) w2;
          w4 = assign_perm view_sign new_state_viewer_group (SignObj k) w3;
          w5 = assign_perm review_sign new_state_viewer_group (SignObj k) w4;
          w6 = assign_perm change_position new_phase_member_group (PositionObj pk) w5;
          w7 = assign_perm view_position new_phase_member_group (PositionObj pk) w6;
          w8 = assign_perm view_position new_phase_viewer_group (PositionObj pk) w7
      in assign_perm view_position new_state_viewer_group (PositionObj pk) w8)"

text \<open>
  \<^verbatim>\<open>Sign.assign_remove_perms(old_state)\<close>. The permission library refuses an object that
  has no primary key, and \<^verbatim>\<open>new_state.phase\<close> raises when the sign has no state.
\<close>

definition assign_remove_perms :: "Env \<Rightarrow> Sign \<Rightarrow> State option \<Rightarrow> World \<Rightarrow> error + World" where
  "assign_remove_perms e s old_state w =
     (case id' s of
        None \<Rightarrow> Inl ObjectNotPersisted
      | Some k \<Rightarrow>
          (case position_id (position s) of
             None \<Rightarrow> Inl ObjectNotPersisted
           | Some pk \<Rightarrow>
               (let w1 = (case old_state of
                            Some old \<Rightarrow> revoke_old_perms e s k pk old w
                          | None \<Rightarrow> w)
                in (case state s of
                      None \<Rightarrow> Inl AttributeError
                    | Some new_state \<Rightarrow> Inr (grant_new_perms e k pk new_state w1)))))"

subsection \<open>The save itself (lines 169-394)\<close>

text \<open>
  The steps of \<^verbatim>\<open>save\<close> in the order of the source, with the save of a sibling as an
  argument. The statements that only touch other tables or services (the zones and sign
  templates of the phase, the cache keys, the artwork job) are not part of \<open>World\<close>. Line 369
  reads \<^verbatim>\<open>self.phase\<close> and raises when it was never set; the row is refused when the
  position has no primary key or the workflow is null.
\<close>

definition save_body ::
  "(Sign \<Rightarrow> World \<Rightarrow> error + Sign \<times> World) \<Rightarrow> Env \<Rightarrow> Sign \<Rightarrow> World \<Rightarrow> error + Sign \<times> World" where
  "save_body sibling_save e s w =
     (case prepare_override_pdf e (sync_shortcuts s) of
        Inl err \<Rightarrow> Inl err
      | Inr s2 \<Rightarrow>
          (case update_sorts e (reset_review_state s2) of
             Inl err \<Rightarrow> Inl err
           | Inr s4 \<Rightarrow>
               (case conflict_rescan sibling_save s4 w of
                  Inl err \<Rightarrow> Inl err
                | Inr (s5, w0) \<Rightarrow>
                    if phase s5 = None then Inl RelatedObjectDoesNotExist
                    else if position_id (position s5) = None then Inl ValueError
                    else if workflow s5 = None then Inl IntegrityError
                    else (let (s6, db2) = db_save s5 (signs w0);
                              w1 = w0\<lparr>signs := db2\<rparr>
                          in if state s6 \<noteq> None \<and>
                                (is_new s6 \<or> original_state_id s6 \<noteq> state_id_of s6)
                             then (case assign_remove_perms e s6
                                          (case original_state_id s6 of
                                             None \<Rightarrow> None
                                           | Some k \<Rightarrow> state_objects e k) w1 of
                                     Inl err \<Rightarrow> Inl err
                                   | Inr w2 \<Rightarrow> Inr (s6, w2))
                             else Inr (s6, w1)))))"

text \<open>
  \<^verbatim>\<open>Sign.save\<close> calls itself on the siblings, and their saves on theirs. \<open>save_depth n\<close> is
  a save that may nest \<open>n\<close> calls deep; beyond the limit the interpreter raises
  \<^verbatim>\<open>maximum recursion depth exceeded\<close>.
\<close>

primrec save_depth :: "nat \<Rightarrow> Env \<Rightarrow> Sign \<Rightarrow> World \<Rightarrow> error + Sign \<times> World" where
  "save_depth 0 e = (\<lambda>s w. Inl RecursionError)"
| "save_depth (Suc n) e = save_body (save_depth n e) e"

definition save :: "Env \<Rightarrow> Sign \<Rightarrow> World \<Rightarrow> error + Sign \<times> World" where
  "save e s w = save_depth (recursion_limit e) e s w"


section \<open>Cloning a sign (lines 396-505)\<close>

text \<open>\<^verbatim>\<open>Position.save\<close> (lines 59-61): the project follows the zone, then the row is written.\<close>

definition position_save :: "Position \<Rightarrow> World \<Rightarrow> error + Position \<times> World" where
  "position_save p w =
     (case position_zone p of
        None \<Rightarrow> Inl AttributeError
      | Some z \<Rightarrow>
          (let p1 = p\<lparr>position_project := zone_project z\<rparr>
           in (case position_id p1 of
                 None \<Rightarrow>
                   (let p2 = p1\<lparr>position_id :=
                                 Some (Suc (fold max (List.map_filter position_id (positions w)) 0))\<rparr>
                    in Inr (p2, w\<lparr>positions := positions w @ [p2]\<rparr>))
               | Some n \<Rightarrow>
                   if Some n \<in> set (map position_id (positions w))
                   then Inr (p1, w\<lparr>positions :=
                                     map (\<lambda>r. if position_id r = Some n then p1 else r) (positions w)\<rparr>)
                   else Inr (p1, w\<lparr>positions := positions w @ [p1]\<rparr>))))"

text \<open>
  Assigning the tags of the source to the clone delivers the \<^verbatim>\<open>m2m_changed\<close> signal, and
  \<^verbatim>\<open>tags_changed\<close> (lines 1395-1410) saves the instance at each delivery; \<open>save_times n\<close>
  is \<open>n\<close> such saves in a row.
\<close>

fun save_times :: "nat \<Rightarrow> Env \<Rightarrow> Sign \<Rightarrow> World \<Rightarrow> error + Sign \<times> World" where
  "save_times 0 e s w = Inr (s, w)"
| "save_times (Suc n) e s w =
     (case save e s w of
        Inl err \<Rightarrow> Inl err
      | Inr (s', w') \<Rightarrow> save_times n e s' w')"

text \<open>
  \<^verbatim>\<open>Sign.clone\<close>: the deep copy keeps the private attributes of the source; the copies of
  the attribute instances and of the message rows are rows of other tables. \<open>tag_signals\<close>
  is the number of deliveries of \<^verbatim>\<open>m2m_changed\<close> for the tags.
\<close>

definition clone :: "Env \<Rightarrow> nat \<Rightarrow> Sign \<Rightarrow> World \<Rightarrow> error + Sign \<times> World" where
  "clone e tag_signals s w =
     (let new_sign = s\<lparr>number := number s @ '' (cloned)'', id' := None\<rparr>
      in (case position_save ((position s)\<lparr>position_id := None\<rparr>) w of
            Inl err \<Rightarrow> Inl err
          | Inr (pos, w1) \<Rightarrow>
              (case save e (new_sign\<lparr>position := pos\<rparr>) w1 of
                 Inl err \<Rightarrow> Inl err
               | Inr (s1, w2) \<Rightarrow>
                   (case save_times (Suc tag_signals) e s1 w2 of
                      Inl err \<Rightarrow> Inl err
                    | Inr (s2, w3) \<Rightarrow>
                        if state s2 \<noteq> None
                        then (case assign_remove_perms e s2 None w3 of
                                Inl err \<Rightarrow> Inl err
                              | Inr w4 \<Rightarrow> Inr (s2, w4))
                        else Inr (s2, w3)))))"

text \<open>
  \<^verbatim>\<open>Sign.clone_with_attachments\<close>: the same statements, followed by the copy of the comments
  that carry an attachment (rows of another table).
\<close>

definition clone_with_attachments :: "Env \<Rightarrow> nat \<Rightarrow> Sign \<Rightarrow> World \<Rightarrow> error + Sign \<times> World" where
  "clone_with_attachments e tag_signals s w =
     (let new_sign = s\<lparr>number := number s @ '' (cloned)'', id' := None\<rparr>
      in (case position_save ((position s)\<lparr>position_id := None\<rparr>) w of
            Inl err \<Rightarrow> Inl err
          | Inr (pos, w1) \<Rightarrow>
              (case save e (new_sign\<lparr>position := pos\<rparr>) w1 of
                 Inl err \<Rightarrow> Inl err
               | Inr (s1, w2) \<Rightarrow>
                   (case save_times (Suc tag_signals) e s1 w2 of
                      Inl err \<Rightarrow> Inl err
                    | Inr (s2, w3) \<Rightarrow>
                        if state s2 \<noteq> None
                        then (case assign_remove_perms e s2 None w3 of
                                Inl err \<Rightarrow> Inl err
                              | Inr w4 \<Rightarrow> Inr (s2, w4))
                        else Inr (s2, w3)))))"

section \<open>Fixtures\<close>

text \<open>
  \<^verbatim>\<open>Sign(position=p, sign_template=t, state=st, number=n)\<close>: the field defaults of the model
  class, then \<^verbatim>\<open>__init__\<close>.
\<close>

definition new_sign ::
  "Position \<Rightarrow> sign_template_id option \<Rightarrow> State option \<Rightarrow> string \<Rightarrow> Sign" where
  "new_sign p t st n =
     init \<lparr>id' = None, position = p, sign_template = t, state = st, number = n,
           zone = None, project = None, phase = None, workflow = None,
           phase_sort = [], state_sort = [], zone_sort = [], sign_template_sort = [],
           number_sort = [],
           has_conflict_type_location_number = False,
           has_conflict_location_number = False,
           has_conflict_type_number = False,
           override_pdf = None, override_pdf_as_png = None,
           override_artwork_up_to_date = False,
           review_state = CHR ''N'',
           original_phase_id = None, original_state_id = None, original_zone_id = None,
           original_sign_template_id = None, original_number = [],
           original_override_pdf = None, is_new = True\<rparr>"

definition result_sign :: "error + Sign \<times> World \<Rightarrow> Sign option" where
  "result_sign r = (case r of Inl _ \<Rightarrow> None | Inr (s, _) \<Rightarrow> Some s)"

definition result_world :: "error + Sign \<times> World \<Rightarrow> World option" where
  "result_world r = (case r of Inl _ \<Rightarrow> None | Inr (_, w) \<Rightarrow> Some w)"

text \<open>A project 1 with one zone, two states of one phase and workflow, and one position.\<close>

definition ex_zone :: Zone where
  "ex_zone = \<lparr>zone_id = 1, zone_project = 1\<rparr>"

definition ex_position :: Position where
  "ex_position = \<lparr>position_id = Some 1, position_zone = Some ex_zone, position_project = 1\<rparr>"

definition ex_state :: State where
  "ex_state = \<lparr>state_id = 1, state_phase = 1, state_workflow = 1\<rparr>"

definition ex_state2 :: State where
  "ex_state2 = \<lparr>state_id = 2, state_phase = 1, state_workflow = 1\<rparr>"

definition ex_env :: Env where
  "ex_env = \<lparr>phase_global_order_id = (\<lambda>_. ''p''),
             state_global_order_id = (\<lambda>_. ''s''),
             zone_global_order_id = (\<lambda>_. ''z''),
             sign_template_global_order_id = (\<lambda>_. ''t''),
             convert_pdf = (\<lambda>_ f. Inr f),
             state_objects = (\<lambda>k. if k = 1 then Some ex_state
                                   else if k = 2 then Some ex_state2 else None),
             phase_member_group = (\<lambda>_. 10),
             phase_viewer_group = (\<lambda>_. 20),
             state_viewer_group = (\<lambda>k. 30 + k),
             recursion_limit = 3\<rparr>"

definition ex_world :: World where
  "ex_world = \<lparr>signs = [], positions = [ex_position], perms = {}, perm_calls = []\<rparr>"

text \<open>
  A sign of the table as a query loads it: approved, in state 1, numbered 7, with primary
  key 1.
\<close>

definition ex_saved :: Sign where
  "ex_saved =
     init ((new_sign ex_position (Some 1) (Some ex_state) ''7'')
             \<lparr>id' := Some 1, zone := Some ex_zone, project := Some 1, phase := Some 1,
              workflow := Some 1, number_sort := ''000000000000007.000000000000000'',
              review_state := CHR ''A''\<rparr>)"

definition ex_world1 :: World where
  "ex_world1 = \<lparr>signs = [ex_saved], positions = [ex_position], perms = {}, perm_calls = []\<rparr>"

text \<open>A second sign of the table, numbered 8, at the same position and of the same type.\<close>

definition ex_saved2 :: Sign where
  "ex_saved2 =
     init ((new_sign ex_position (Some 1) (Some ex_state) ''8'')
             \<lparr>id' := Some 2, zone := Some ex_zone, project := Some 1, phase := Some 1,
              workflow := Some 1, number_sort := ''000000000000008.000000000000000''\<rparr>)"

definition ex_world2 :: World where
  "ex_world2 =
     \<lparr>signs = [ex_saved, ex_saved2], positions = [ex_position], perms = {}, perm_calls = []\<rparr>"

section \<open>Splitting and joining\<close>

lemma split_sep_not_Nil: "split_sep c s \<noteq> []"
  by (induction s) (auto split: list.splits)

lemma split_sep_no_sep: "c \<notin> set x \<Longrightarrow> split_sep c x = [x]"
  by (induction x) auto

lemma split_sep_append: "c \<notin> set x \<Longrightarrow> split_sep c (x @ c # rest) = x # split_sep c rest"
  by (induction x) (auto split: list.splits)

lemma split_sep_join:
  "xs \<noteq> [] \<Longrightarrow> \<forall>x\<in>set xs. c \<notin> set x \<Longrightarrow> split_sep c (join [c] xs) = xs"
proof (induction "[c]" xs rule: join.induct)
  case 1
  then show ?case by simp
next
  case (2 x)
  then show ?case by (simp add: split_sep_no_sep)
next
  case (3 x y ys)
  then show ?case by (simp add: split_sep_append)
qed

lemma number_sort_key_segments:
  assumes "\<forall>x\<in>set (l # rest). CHR ''.'' \<notin> set x"
  shows "number_sort_key (join ''.'' (l # rest)) =
         zfill 15 l @ ''.'' @ ljust 15 CHR ''0'' (join ''.'' rest)"
proof -
  have "split_sep CHR ''.'' (join ''.'' (l # rest)) = l # rest"
    using assms split_sep_join[of "l # rest" "CHR ''.''"] by simp
  then show ?thesis
    by (cases rest) (simp_all add: number_sort_key_def Let_def)
qed


section \<open>What a save leaves alone\<close>

text \<open>
  The rescan changes nothing of the saved instance but its three flags, and the write of the
  row nothing but the primary key.
\<close>

lemma conflict_scope_fst:
  "conflict_scope sib g f p c s w = Inr (s', w') \<Longrightarrow> s' = f False s \<or> s' = f True (f False s)"
  by (auto simp: conflict_scope_def Let_def split: sum.splits if_splits)

lemma rescan_tln_fst:
  "rescan_type_location_number sib s w = Inr (s', w') \<Longrightarrow>
   \<exists>a. s' = s\<lparr>has_conflict_type_location_number := a\<rparr>"
  unfolding rescan_type_location_number_def by (drule conflict_scope_fst) auto
lemma rescan_ln_fst:
  "rescan_location_number sib s w = Inr (s', w') \<Longrightarrow>
   \<exists>a. s' = s\<lparr>has_conflict_location_number := a\<rparr>"
  unfolding rescan_location_number_def by (drule conflict_scope_fst) auto
lemma rescan_tn_fst:
  "rescan_type_number sib s w = Inr (s', w') \<Longrightarrow>
   \<exists>a. s' = s\<lparr>has_conflict_type_number := a\<rparr>"
  unfolding rescan_type_number_def by (drule conflict_scope_fst) auto

text \<open>The three blocks of a rescan that ran, one after the other.\<close>

lemma conflict_rescan_blocks:
  assumes "conflict_rescan sib s w = Inr (s', w')" "rescan_triggered s"
  shows "\<exists>s1 w1 s2 w2.
           (if sign_template s \<noteq> None \<and> zone s \<noteq> None
            then rescan_type_location_number sib s w else Inr (s, w)) = Inr (s1, w1) \<and>
           (if zone s1 \<noteq> None
            then rescan_location_number sib s1 w1 else Inr (s1, w1)) = Inr (s2, w2) \<and>
           (if sign_template s2 \<noteq> None
            then rescan_type_number sib s2 w2 else Inr (s2, w2)) = Inr (s', w')"
proof -
  let ?r1 = "if sign_template s \<noteq> None \<and> zone s \<noteq> None
            then rescan_type_location_number sib s w else Inr (s, w)"
  obtain s1 w1 where r1: "?r1 = Inr (s1, w1)"
    using assms by (cases ?r1) (auto simp: conflict_rescan_def)
  let ?r2 = "if zone s1 \<noteq> None then rescan_location_number sib s1 w1 else Inr (s1, w1)"
  obtain s2 w2 where r2: "?r2 = Inr (s2, w2)"
    using assms r1 by (cases ?r2) (auto simp: conflict_rescan_def)
  have "(if sign_template s2 \<noteq> None
            then rescan_type_number sib s2 w2 else Inr (s2, w2)) = Inr (s', w')"
    using assms r1 r2 by (simp add: conflict_rescan_def)
  with r1 r2 show ?thesis by blast
qed

lemma conflict_rescan_fst:
  assumes "conflict_rescan sib s w = Inr (s', w')"
  shows "\<exists>a b c. s' =
     s\<lparr>has_conflict_type_location_number := a, has_conflict_location_number := b,
       has_conflict_type_number := c\<rparr>"
proof (cases "rescan_triggered s")
  case True
  obtain s1 w1 s2 w2 where
    r1: "(if sign_template s \<noteq> None \<and> zone s \<noteq> None
            then rescan_type_location_number sib s w else Inr (s, w)) = Inr (s1, w1)" and
    r2: "(if zone s1 \<noteq> None
            then rescan_location_number sib s1 w1 else Inr (s1, w1)) = Inr (s2, w2)" and
    r3: "(if sign_template s2 \<noteq> None
            then rescan_type_number sib s2 w2 else Inr (s2, w2)) = Inr (s', w')"
    using conflict_rescan_blocks[OF assms True] by blast
  obtain a where a: "s1 = s\<lparr>has_conflict_type_location_number := a\<rparr>"
  proof (cases "sign_template s \<noteq> None \<and> zone s \<noteq> None")
    case True
    then show ?thesis using rescan_tln_fst[of sib s w s1 w1] r1 that by auto
  next
    case False
    then have "s1 = s\<lparr>has_conflict_type_location_number := has_conflict_type_location_number s\<rparr>"
      using r1 by auto
    then show ?thesis using that by blast
  qed
  obtain b where b: "s2 = s1\<lparr>has_conflict_location_number := b\<rparr>"
  proof (cases "zone s1 \<noteq> None")
    case True
    then show ?thesis using rescan_ln_fst[of sib s1 w1 s2 w2] r2 that by auto
  next
    case False
    then have "s2 = s1\<lparr>has_conflict_location_number := has_conflict_location_number s1\<rparr>"
      using r2 by auto
    then show ?thesis using that by blast
  qed
  obtain c where c: "s' = s2\<lparr>has_conflict_type_number := c\<rparr>"
  proof (cases "sign_template s2 \<noteq> None")
    case True
    then show ?thesis using rescan_tn_fst[of sib s2 w2 s' w'] r3 that by auto
  next
    case False
    then have "s' = s2\<lparr>has_conflict_type_number := has_conflict_type_number s2\<rparr>"
      using r3 by auto
    then show ?thesis using that by blast
  qed
  have "s' = s\<lparr>has_conflict_type_location_number := a, has_conflict_location_number := b,
       has_conflict_type_number := c\<rparr>"
    by (simp add: a b c)
  then show ?thesis by blast
next
  case False
  then have "s' = s\<lparr>has_conflict_type_location_number := has_conflict_type_location_number s,
       has_conflict_location_number := has_conflict_location_number s,
       has_conflict_type_number := has_conflict_type_number s\<rparr>"
    using assms by (simp add: conflict_rescan_def)
  then show ?thesis by blast
qed


lemma db_save_fst: "\<exists>i. fst (db_save s db) = s\<lparr>id' := i\<rparr>"
proof (cases "id' s")
  case None
  then show ?thesis by (auto simp: db_save_def Let_def)
next
  case (Some n)
  then have "fst (db_save s db) = s\<lparr>id' := id' s\<rparr>" by (simp add: db_save_def)
  then show ?thesis by blast
qed

lemma zfill_unsigned: "\<not> signed l \<Longrightarrow> zfill n l = replicate (n - length l) CHR ''0'' @ l"
  by (cases l) (auto simp: zfill_def signed_def)

lemma zfill_signed:
  "signed l \<Longrightarrow> length l < n \<Longrightarrow> zfill n l = hd l # replicate (n - length l) CHR ''0'' @ tl l"
  by (cases l) (auto simp: zfill_def signed_def)

lemma prepare_override_pdf_frame:
  assumes "prepare_override_pdf e x = Inr y"
  shows "\<exists>a b. y = x\<lparr>override_pdf_as_png := a, override_artwork_up_to_date := b\<rparr>"
proof (cases "override_pdf x")
  case None
  then have "y = x\<lparr>override_pdf_as_png := override_pdf_as_png x, override_artwork_up_to_date := override_artwork_up_to_date x\<rparr>"
    using assms by (simp add: prepare_override_pdf_def)
  then show ?thesis by blast
next
  case (Some f)
  show ?thesis
  proof (cases "original_override_pdf x \<noteq> Some f")
    case True
    then show ?thesis using assms Some
      by (cases "convert_pdf e (id' x) f") (auto simp: prepare_override_pdf_def)
  next
    case False
    then have "y = x\<lparr>override_pdf_as_png := override_pdf_as_png x, override_artwork_up_to_date := override_artwork_up_to_date x\<rparr>"
      using assms Some by (simp add: prepare_override_pdf_def)
    then show ?thesis by blast
  qed
qed

lemma phase_sort_existing_frame: "\<exists>v. phase_sort_existing e s = s\<lparr>phase_sort := v\<rparr>"
proof -
  have "phase_sort_existing e s = s\<lparr>phase_sort := phase_sort (phase_sort_existing e s)\<rparr>"
    by (simp add: phase_sort_existing_def split: option.splits)
  then show ?thesis by blast
qed
lemma state_sort_existing_frame: "\<exists>v. state_sort_existing e s = s\<lparr>state_sort := v\<rparr>"
proof -
  have "state_sort_existing e s = s\<lparr>state_sort := state_sort (state_sort_existing e s)\<rparr>"
    by (simp add: state_sort_existing_def split: option.splits)
  then show ?thesis by blast
qed
lemma zone_sort_existing_frame: "\<exists>v. zone_sort_existing e s = s\<lparr>zone_sort := v\<rparr>"
proof -
  have "zone_sort_existing e s = s\<lparr>zone_sort := zone_sort (zone_sort_existing e s)\<rparr>"
    by (simp add: zone_sort_existing_def split: option.splits)
  then show ?thesis by blast
qed
lemma sign_template_sort_existing_frame:
  "\<exists>v. sign_template_sort_existing e s = s\<lparr>sign_template_sort := v\<rparr>"
proof -
  have "sign_template_sort_existing e s =
        s\<lparr>sign_template_sort := sign_template_sort (sign_template_sort_existing e s)\<rparr>"
    by (simp add: sign_template_sort_existing_def split: option.splits)
  then show ?thesis by blast
qed
lemma state_sort_new_frame: "\<exists>v. state_sort_new e s = s\<lparr>state_sort := v\<rparr>"
  by (auto simp: state_sort_new_def split: option.splits)
lemma zone_sort_new_frame: "\<exists>v. zone_sort_new e s = s\<lparr>zone_sort := v\<rparr>"
  by (auto simp: zone_sort_new_def split: option.splits)
lemma sign_template_sort_new_frame: "\<exists>v. sign_template_sort_new e s = s\<lparr>sign_template_sort := v\<rparr>"
  by (auto simp: sign_template_sort_new_def split: option.splits)

lemma update_sorts_frame:
  assumes "update_sorts e x = Inr y"
  shows "\<exists>a b c d. y = x\<lparr>phase_sort := a, state_sort := b, zone_sort := c, sign_template_sort := d,
            number_sort := (if number x = [] then []
            else if truthy (id' x) \<and> original_number x = number x then number_sort x
            else number_sort_key (number x))\<rparr>"
proof (cases "truthy (id' x)")
  case True
  obtain a where a: "phase_sort_existing e x = x\<lparr>phase_sort := a\<rparr>"
    using phase_sort_existing_frame by blast
  obtain b where b: "state_sort_existing e (x\<lparr>phase_sort := a\<rparr>) = x\<lparr>phase_sort := a, state_sort := b\<rparr>"
    using state_sort_existing_frame by blast
  obtain c where c: "zone_sort_existing e (x\<lparr>phase_sort := a, state_sort := b\<rparr>)
      = x\<lparr>phase_sort := a, state_sort := b, zone_sort := c\<rparr>"
    using zone_sort_existing_frame by blast
  obtain d where d: "sign_template_sort_existing e (x\<lparr>phase_sort := a, state_sort := b, zone_sort := c\<rparr>)
      = x\<lparr>phase_sort := a, state_sort := b, zone_sort := c, sign_template_sort := d\<rparr>"
    using sign_template_sort_existing_frame by blast
  have "y = number_sort_existing (x\<lparr>phase_sort := a, state_sort := b, zone_sort := c, sign_template_sort := d\<rparr>)"
    using assms True by (simp add: update_sorts_def update_sorts_existing_def a b c d)
  then have "y = x\<lparr>phase_sort := a, state_sort := b, zone_sort := c, sign_template_sort := d,
            number_sort := (if number x = [] then []
            else if truthy (id' x) \<and> original_number x = number x then number_sort x
            else number_sort_key (number x))\<rparr>"
    using True by (simp add: number_sort_existing_def)
  then show ?thesis by blast
next
  case False
  then obtain p where p: "phase x = Some p"
    using assms by (cases "phase x") (auto simp: update_sorts_def update_sorts_new_def)
  define a where "a = phase_global_order_id e p"
  obtain b where b: "state_sort_new e (x\<lparr>phase_sort := a\<rparr>) = x\<lparr>phase_sort := a, state_sort := b\<rparr>"
    using state_sort_new_frame by blast
  obtain c where c: "zone_sort_new e (x\<lparr>phase_sort := a, state_sort := b\<rparr>)
      = x\<lparr>phase_sort := a, state_sort := b, zone_sort := c\<rparr>"
    using zone_sort_new_frame by blast
  obtain d where d: "sign_template_sort_new e (x\<lparr>phase_sort := a, state_sort := b, zone_sort := c\<rparr>)
      = x\<lparr>phase_sort := a, state_sort := b, zone_sort := c, sign_template_sort := d\<rparr>"
    using sign_template_sort_new_frame by blast
  have "y = number_sort_new (x\<lparr>phase_sort := a, state_sort := b, zone_sort := c, sign_template_sort := d\<rparr>)"
    using assms False p by (simp add: update_sorts_def update_sorts_new_def a_def[symmetric] b c d)
  then have "y = x\<lparr>phase_sort := a, state_sort := b, zone_sort := c, sign_template_sort := d,
            number_sort := (if number x = [] then []
            else if truthy (id' x) \<and> original_number x = number x then number_sort x
            else number_sort_key (number x))\<rparr>"
    using False by (simp add: number_sort_new_def)
  then show ?thesis by blast
qed

text \<open>The instance that a save returns is the row it wrote.\<close>

lemma db_save_mem: "fst (db_save s db) \<in> set (snd (db_save s db))"
proof (cases "id' s")
  case None
  then show ?thesis by (simp add: db_save_def Let_def)
next
  case (Some n)
  then show ?thesis by (auto simp: db_save_def)
qed

lemma remove_perm_signs [simp]: "signs (remove_perm p g ob w) = signs w"
  by (simp add: remove_perm_def)
lemma assign_perm_signs [simp]: "signs (assign_perm p g ob w) = signs w"
  by (simp add: assign_perm_def)

lemma revoke_old_perms_signs: "signs (revoke_old_perms e s k pk old w) = signs w"
  by (simp add: revoke_old_perms_def Let_def split: prod.splits)

lemma grant_new_perms_signs: "signs (grant_new_perms e k pk st w) = signs w"
  by (simp add: grant_new_perms_def Let_def)

lemma assign_remove_perms_signs:
  "assign_remove_perms e s old w = Inr w' \<Longrightarrow> signs w' = signs w"
  by (auto simp: assign_remove_perms_def Let_def revoke_old_perms_signs grant_new_perms_signs
           split: option.splits)

text \<open>A save that returns ran within the recursion limit.\<close>

lemma save_depth_unfold: "0 < n \<Longrightarrow> save_depth n e = save_body (save_depth (n - 1) e) e"
  by (cases n) simp_all

lemma save_within_limit:
  assumes "save e s w = Inr r"
  shows "\<exists>n. recursion_limit e = Suc n \<and> save_body (save_depth n e) e s w = Inr r"
  using assms by (cases "recursion_limit e") (simp_all add: save_def)

text \<open>The steps of a save that returns.\<close>

lemma save_body_steps:
  assumes "save_body sib e s w = Inr (s', w')"
  shows "\<exists>s2 s4 s5 w0.
           prepare_override_pdf e (sync_shortcuts s) = Inr s2 \<and>
           update_sorts e (reset_review_state s2) = Inr s4 \<and>
           conflict_rescan sib s4 w = Inr (s5, w0) \<and>
           s' = fst (db_save s5 (signs w0)) \<and> signs w' = snd (db_save s5 (signs w0))"
proof -
  obtain s2 where s2: "prepare_override_pdf e (sync_shortcuts s) = Inr s2"
    using assms by (cases "prepare_override_pdf e (sync_shortcuts s)") (auto simp: save_body_def)
  obtain s4 where s4: "update_sorts e (reset_review_state s2) = Inr s4"
    using assms s2 by (cases "update_sorts e (reset_review_state s2)") (auto simp: save_body_def)
  obtain s5 w0 where s5: "conflict_rescan sib s4 w = Inr (s5, w0)"
    using assms s2 s4 by (cases "conflict_rescan sib s4 w") (auto simp: save_body_def)
  have "s' = fst (db_save s5 (signs w0)) \<and> signs w' = snd (db_save s5 (signs w0))"
    using assms s2 s4 s5
    by (auto simp: save_body_def Let_def case_prod_beta
             dest: assign_remove_perms_signs split: if_splits sum.splits)
  with s2 s4 s5 show ?thesis by blast
qed

lemma save_frame:
  assumes "save e s w = Inr (s', w')"
  shows "\<exists>s2 s4 a b c i.
           prepare_override_pdf e (sync_shortcuts s) = Inr s2 \<and>
           update_sorts e (reset_review_state s2) = Inr s4 \<and>
           s' = s4\<lparr>has_conflict_type_location_number := a, has_conflict_location_number := b,
                   has_conflict_type_number := c, id' := i\<rparr>"
proof -
  obtain n where n: "save_body (save_depth n e) e s w = Inr (s', w')"
    using save_within_limit[OF assms] by blast
  obtain s2 s4 s5 w0 where
    s2: "prepare_override_pdf e (sync_shortcuts s) = Inr s2" and
    s4: "update_sorts e (reset_review_state s2) = Inr s4" and
    s5: "conflict_rescan (save_depth n e) s4 w = Inr (s5, w0)" and
    s': "s' = fst (db_save s5 (signs w0))"
    using save_body_steps[OF n] by blast
  obtain a b c where abc: "s5 =
     s4\<lparr>has_conflict_type_location_number := a, has_conflict_location_number := b,
       has_conflict_type_number := c\<rparr>"
    using conflict_rescan_fst[OF s5] by blast
  obtain i where i: "fst (db_save s5 (signs w0)) = s5\<lparr>id' := i\<rparr>"
    using db_save_fst by blast
  have "s' = s4\<lparr>has_conflict_type_location_number := a, has_conflict_location_number := b,
                   has_conflict_type_number := c, id' := i\<rparr>"
    using i abc s' by simp
  with s2 s4 show ?thesis by blast
qed

lemma save_shape:
  assumes "save e s w = Inr (s', w')"
  shows "\<exists>img utd a b c d f1 f2 f3 i.
           s' = s\<lparr>zone := position_zone (position s),
                  project := Some (position_project (position s)),
                  phase := (case state s of Some st \<Rightarrow> Some (state_phase st) | None \<Rightarrow> phase s),
                  workflow := (case state s of Some st \<Rightarrow> Some (state_workflow st)
                               | None \<Rightarrow> workflow s),
                  override_pdf_as_png := img, override_artwork_up_to_date := utd,
                  review_state := (if truthy (state_id_of s) \<and> original_state_id s \<noteq> state_id_of s
                                   then CHR ''N'' else review_state s),
                  phase_sort := a, state_sort := b, zone_sort := c, sign_template_sort := d,
                  number_sort := (if number s = [] then []
                                  else if truthy (id' s) \<and> original_number s = number s
                                       then number_sort s
                                  else number_sort_key (number s)),
                  has_conflict_type_location_number := f1,
                  has_conflict_location_number := f2,
                  has_conflict_type_number := f3, id' := i\<rparr>"
proof -
  obtain s2 s4 f1 f2 f3 i where
    s2: "prepare_override_pdf e (sync_shortcuts s) = Inr s2" and
    s4: "update_sorts e (reset_review_state s2) = Inr s4" and
    s': "s' = s4\<lparr>has_conflict_type_location_number := f1, has_conflict_location_number := f2,
                   has_conflict_type_number := f3, id' := i\<rparr>"
    using save_frame[OF assms] by blast
  obtain img utd where
    s2': "s2 = (sync_shortcuts s)\<lparr>override_pdf_as_png := img, override_artwork_up_to_date := utd\<rparr>"
    using prepare_override_pdf_frame[OF s2] by blast
  obtain a b c d where
    s4': "s4 = (reset_review_state s2)\<lparr>phase_sort := a, state_sort := b, zone_sort := c,
            sign_template_sort := d,
            number_sort := (if number (reset_review_state s2) = [] then []
            else if truthy (id' (reset_review_state s2)) \<and>
                    original_number (reset_review_state s2) = number (reset_review_state s2)
                 then number_sort (reset_review_state s2)
            else number_sort_key (number (reset_review_state s2)))\<rparr>"
    using update_sorts_frame[OF s4] by blast
  have sync: "sync_shortcuts s = s\<lparr>zone := position_zone (position s),
                  project := Some (position_project (position s)),
                  phase := (case state s of Some st \<Rightarrow> Some (state_phase st) | None \<Rightarrow> phase s),
                  workflow := (case state s of Some st \<Rightarrow> Some (state_workflow st)
                               | None \<Rightarrow> workflow s)\<rparr>"
    by (simp add: sync_shortcuts_def Let_def split: option.splits)
  have rr: "reset_review_state s2 = s2\<lparr>review_state :=
        (if truthy (state_id_of s) \<and> original_state_id s \<noteq> state_id_of s
                                   then CHR ''N'' else review_state s)\<rparr>"
    by (simp add: reset_review_state_def s2' sync state_id_of_def)
  have "s' = s\<lparr>zone := position_zone (position s),
                  project := Some (position_project (position s)),
                  phase := (case state s of Some st \<Rightarrow> Some (state_phase st) | None \<Rightarrow> phase s),
                  workflow := (case state s of Some st \<Rightarrow> Some (state_workflow st)
                               | None \<Rightarrow> workflow s),
                  override_pdf_as_png := img, override_artwork_up_to_date := utd,
                  review_state := (if truthy (state_id_of s) \<and> original_state_id s \<noteq> state_id_of s
                                   then CHR ''N'' else review_state s),
                  phase_sort := a, state_sort := b, zone_sort := c, sign_template_sort := d,
                  number_sort := (if number s = [] then []
                                  else if truthy (id' s) \<and> original_number s = number s
                                       then number_sort s
                                  else number_sort_key (number s)),
                  has_conflict_type_location_number := f1,
                  has_conflict_location_number := f2,
                  has_conflict_type_number := f3, id' := i\<rparr>"
    unfolding s' s4' rr unfolding s2' sync by simp
  then show ?thesis by blast
qed

lemmas save_defs = save_def save_depth_unfold save_body_def sync_shortcuts_def prepare_override_pdf_def reset_review_state_def
  update_sorts_def update_sorts_new_def update_sorts_existing_def
  phase_sort_existing_def state_sort_existing_def zone_sort_existing_def
  sign_template_sort_existing_def number_sort_existing_def state_sort_new_def zone_sort_new_def
  sign_template_sort_new_def number_sort_new_def conflict_rescan_def
  rescan_triggered_def rescan_type_location_number_def rescan_location_number_def
  rescan_type_number_def conflict_scope_def db_save_def fresh_id_def
  assign_remove_perms_def revoke_old_perms_def grant_new_perms_def remove_perm_def
  assign_perm_def has_perm_def other_signs_def truthy_def state_id_of_def zone_id_of_def
  init_def new_sign_def result_sign_def result_world_def List.map_filter_simps Let_def

lemmas ex_defs = ex_zone_def ex_position_def ex_state_def ex_state2_def ex_env_def ex_world_def
  ex_saved_def ex_world1_def ex_saved2_def ex_world2_def


lemma save_row_written:
  assumes "save e s w = Inr (s', w')"
  shows "s' \<in> set (signs w')"
proof -
  obtain n where n: "save_body (save_depth n e) e s w = Inr (s', w')"
    using save_within_limit[OF assms] by blast
  show ?thesis using save_body_steps[OF n] db_save_mem by metis
qed

section \<open>Evaluation\<close>

lemma number_sort_key_ex: "number_sort_key ''1.11.1'' = ''000000000000001.11.100000000000''"
  by code_simp

section \<open>C1: the sort key that a save computes\<close>

text \<open>
  C1, as the code has it. After a successful save: an empty number has the empty key; a sign
  that has a primary key and whose number did not change since load keeps the key it had;
  otherwise, for a number made of the dot-free segments \<open>l # rest\<close>, the key is the left
  segment filled with zeros to width 15 by \<^verbatim>\<open>zfill\<close> (in front, or after a leading sign),
  a dot, and the remaining segments joined by dots and padded with zeros on the right to width
  15 as one text. For one segment that is the left part, a dot and fifteen zeros; for two it
  is what the claim says; for more, the remainder is padded as a whole and not segment by
  segment.
\<close>

theorem number_sort_on_save:
  assumes "save e s w = Inr (s', w')"
  shows "(number s = [] \<longrightarrow> number_sort s' = []) \<and>
         (number s \<noteq> [] \<and> truthy (id' s) \<and> original_number s = number s \<longrightarrow>
            number_sort s' = number_sort s) \<and>
         (number s \<noteq> [] \<and> (\<not> truthy (id' s) \<or> original_number s \<noteq> number s) \<and>
          number s = join ''.'' (l # rest) \<and> (\<forall>x\<in>set (l # rest). CHR ''.'' \<notin> set x) \<longrightarrow>
            number_sort s' =
              zfill 15 l @ ''.'' @ join ''.'' rest @
              replicate (15 - length (join ''.'' rest)) CHR ''0'' \<and>
            (rest = [] \<longrightarrow> number_sort s' = zfill 15 l @ ''.'' @ replicate 15 CHR ''0'') \<and>
            (\<forall>r. rest = [r] \<longrightarrow>
               number_sort s' = zfill 15 l @ ''.'' @ r @ replicate (15 - length r) CHR ''0'') \<and>
            (\<not> signed l \<longrightarrow> zfill 15 l = replicate (15 - length l) CHR ''0'' @ l) \<and>
            (signed l \<and> length l < 15 \<longrightarrow>
               zfill 15 l = hd l # replicate (15 - length l) CHR ''0'' @ tl l))"
proof -
  have ns: "number_sort s' =
          (if number s = [] then []
           else if truthy (id' s) \<and> original_number s = number s then number_sort s
           else number_sort_key (number s))"
    using save_shape[OF assms] by auto
  have key: "number_sort_key (join ''.'' (l # rest)) =
             zfill 15 l @ ''.'' @ join ''.'' rest @
             replicate (15 - length (join ''.'' rest)) CHR ''0''"
    if "\<forall>x\<in>set (l # rest). CHR ''.'' \<notin> set x"
    using number_sort_key_segments[OF that] by (simp add: ljust_def)
  show ?thesis
    using ns key zfill_unsigned[of l 15] zfill_signed[of l 15] by auto
qed

text \<open>The theorem at a new sign numbered 1.11.1.\<close>

theorem number_sort_on_save_witness:
  "map_option number_sort
     (result_sign (save ex_env (new_sign ex_position (Some 1) (Some ex_state) ''1.11.1'') ex_world)) =
   Some (zfill 15 ''1'' @ ''.'' @ join ''.'' [''11'', ''1''] @
         replicate (15 - length (join ''.'' [''11'', ''1''])) CHR ''0'')"
proof -
  obtain s' w' where
    sv: "save ex_env (new_sign ex_position (Some 1) (Some ex_state) ''1.11.1'') ex_world = Inr (s', w')"
    by (simp add: save_defs ex_defs)
  have n: "number (new_sign ex_position (Some 1) (Some ex_state) ''1.11.1'') = ''1.11.1''"
    by (simp add: new_sign_def init_def)
  have i: "\<not> truthy (id' (new_sign ex_position (Some 1) (Some ex_state) ''1.11.1''))"
    by (simp add: new_sign_def init_def truthy_def)
  have "number_sort s' = zfill 15 ''1'' @ ''.'' @ join ''.'' [''11'', ''1''] @
         replicate (15 - length (join ''.'' [''11'', ''1''])) CHR ''0''"
    using number_sort_on_save[OF sv, of "''1''" "[''11'', ''1'']"] n i by simp
  then show ?thesis unfolding sv result_sign_def by simp
qed

text \<open>
  C1 as stated fails at the number 1.11.1: the save computes the key of the comment in the
  source, not the key in which every further segment is padded on its own.
\<close>

theorem number_sort_counterexample:
  "map_option number_sort
     (result_sign (save ex_env (new_sign ex_position (Some 1) (Some ex_state) ''1.11.1'') ex_world)) =
   Some ''000000000000001.11.100000000000'' \<and>
   spec_number_sort ''1.11.1'' = ''000000000000001.110000000000000.100000000000000'' \<and>
   map_option number_sort
     (result_sign (save ex_env (new_sign ex_position (Some 1) (Some ex_state) ''1.11.1'') ex_world)) \<noteq>
   Some (spec_number_sort ''1.11.1'')"
proof -
  have a: "map_option number_sort
     (result_sign (save ex_env (new_sign ex_position (Some 1) (Some ex_state) ''1.11.1'') ex_world)) =
   Some ''000000000000001.11.100000000000''"
    by (simp add: save_defs ex_defs number_sort_key_ex)
  have b: "spec_number_sort ''1.11.1'' = ''000000000000001.110000000000000.100000000000000''"
    by code_simp
  show ?thesis unfolding a b by simp
qed

section \<open>C4: the shortcut fields after a save\<close>

text \<open>
  C4. After every successful save the zone and the project of the sign are those of its
  position, and when the sign has a state at save time its phase and workflow are those of
  the state. The returned instance is the row in the table.
\<close>

theorem shortcuts_on_save:
  assumes "save e s w = Inr (s', w')"
  shows "zone s' = position_zone (position s') \<and>
         project s' = Some (position_project (position s')) \<and>
         position s' = position s \<and>
         (\<forall>st. state s = Some st \<longrightarrow>
            state s' = Some st \<and> phase s' = Some (state_phase st) \<and>
            workflow s' = Some (state_workflow st)) \<and>
         s' \<in> set (signs w')"
  using save_shape[OF assms] save_row_written[OF assms] by auto

text \<open>The theorem at a new sign of the example position, in state 1.\<close>

theorem shortcuts_on_save_witness:
  "\<exists>s' w'. save ex_env (new_sign ex_position (Some 1) (Some ex_state) ''7'') ex_world = Inr (s', w') \<and>
     zone s' = Some ex_zone \<and> project s' = Some 1 \<and> phase s' = Some 1 \<and> workflow s' = Some 1 \<and>
     s' \<in> set (signs w')"
proof -
  obtain s' w' where
    sv: "save ex_env (new_sign ex_position (Some 1) (Some ex_state) ''7'') ex_world = Inr (s', w')"
    by (simp add: save_defs ex_defs)
  have p: "position (new_sign ex_position (Some 1) (Some ex_state) ''7'') = ex_position"
    and st: "state (new_sign ex_position (Some 1) (Some ex_state) ''7'') = Some ex_state"
    by (simp_all add: new_sign_def init_def)
  have "zone s' = Some ex_zone \<and> project s' = Some 1 \<and> phase s' = Some 1 \<and>
        workflow s' = Some 1 \<and> s' \<in> set (signs w')"
    using shortcuts_on_save[OF sv] p st by (simp add: ex_position_def ex_state_def)
  with sv show ?thesis by blast
qed

section \<open>C8: the review state\<close>

text \<open>
  C8, as the code has it. A successful save resets the review state to N when the state of
  the sign is set (its primary key is truthy) and differs from the state recorded at load. A
  save whose state did not change, or whose state is null, leaves the review state as it was.
\<close>

theorem review_state_on_save:
  assumes "save e s w = Inr (s', w')"
  shows "(truthy (state_id_of s) \<and> original_state_id s \<noteq> state_id_of s \<longrightarrow>
            review_state s' = CHR ''N'') \<and>
         (original_state_id s = state_id_of s \<longrightarrow> review_state s' = review_state s) \<and>
         (\<not> truthy (state_id_of s) \<longrightarrow> review_state s' = review_state s)"
  using save_shape[OF assms] by auto

text \<open>The theorem at an approved sign moved from state 1 to state 2.\<close>

theorem review_state_on_save_witness:
  "\<exists>s' w'. save ex_env (ex_saved\<lparr>state := Some ex_state2\<rparr>) ex_world1 = Inr (s', w') \<and>
     review_state ex_saved = CHR ''A'' \<and> review_state s' = CHR ''N''"
proof -
  obtain s' w' where
    sv: "save ex_env (ex_saved\<lparr>state := Some ex_state2\<rparr>) ex_world1 = Inr (s', w')"
    by (simp add: save_defs ex_defs)
  have "truthy (state_id_of (ex_saved\<lparr>state := Some ex_state2\<rparr>)) \<and>
        original_state_id (ex_saved\<lparr>state := Some ex_state2\<rparr>) \<noteq>
        state_id_of (ex_saved\<lparr>state := Some ex_state2\<rparr>)"
    by (simp add: save_defs ex_defs)
  then have "review_state s' = CHR ''N''"
    using review_state_on_save[OF sv] by blast
  moreover have "review_state ex_saved = CHR ''A''"
    by (simp add: save_defs ex_defs)
  ultimately show ?thesis using sv by blast
qed

text \<open>
  C8 as stated fails when the state changes to null: the approved sign whose state is removed
  stays approved, because line 207 tests \<^verbatim>\<open>self.state_id\<close> first.
\<close>

theorem review_state_counterexample:
  "original_state_id (ex_saved\<lparr>state := None\<rparr>) \<noteq> state_id_of (ex_saved\<lparr>state := None\<rparr>) \<and>
   map_option review_state (result_sign (save ex_env (ex_saved\<lparr>state := None\<rparr>) ex_world1)) =
   Some CHR ''A''"
  by (simp add: save_defs ex_defs)


end
